theory Spec2Isabelle
  imports Main
begin

section \<open>JavaScript values\<close>

text \<open>
  The script handles whatever the remote API sends back, without decoding it, so the
  values it passes around are plain JavaScript values. Arrays and objects carry the
  identity of the object they denote (a number): the operator \<open>===\<close> compares two
  objects by identity, not by content. Numbers are the integers (player ids are
  integers); fractions and \<open>NaN\<close> are not represented.
\<close>

datatype jsval =
    JUndefined
  | JNull
  | JBool bool
  | JNum int
  | JStr string
  | JArr nat "jsval list"
  | JObj nat "(string \<times> jsval) list"

datatype exn = TypeError | SyntaxError | NetworkError | Error string

datatype 'a completion = Normal 'a | Throw exn

fun nullish :: "jsval \<Rightarrow> bool" where
  "nullish JUndefined = True"
| "nullish JNull = True"
| "nullish _ = False"

text \<open>The conversion to boolean that \<open>if\<close>, \<open>!\<close>, \<open>&&\<close> and \<open>||\<close> apply.\<close>

fun truthy :: "jsval \<Rightarrow> bool" where
  "truthy JUndefined = False"
| "truthy JNull = False"
| "truthy (JBool b) = b"
| "truthy (JNum n) = (n \<noteq> 0)"
| "truthy (JStr s) = (s \<noteq> [])"
| "truthy (JArr a xs) = True"
| "truthy (JObj a kvs) = True"

text \<open>
  Property access \<open>v.k\<close>, for the property names the script uses (\<open>success\<close>,
  \<open>data\<close>, \<open>players\<close>, \<open>player\<close>, \<open>id\<close>, \<open>name\<close>, \<open>breed\<close>, \<open>status\<close>,
  \<open>imageUrl\<close>), none of which a built-in prototype defines: reading from
  \<open>undefined\<close> or \<open>null\<close> throws a TypeError, an object yields its own property or
  \<open>undefined\<close>, every other value yields \<open>undefined\<close>.
\<close>

fun get_prop :: "jsval \<Rightarrow> string \<Rightarrow> exn + jsval" where
  "get_prop JUndefined k = Inl TypeError"
| "get_prop JNull k = Inl TypeError"
| "get_prop (JObj a kvs) k = (case map_of kvs k of Some v \<Rightarrow> Inr v | None \<Rightarrow> Inr JUndefined)"
| "get_prop v k = Inr JUndefined"

text \<open>Optional chaining \<open>v?.k\<close>: \<open>undefined\<close> when \<open>v\<close> is \<open>undefined\<close> or \<open>null\<close>.\<close>

fun opt_prop :: "jsval \<Rightarrow> string \<Rightarrow> jsval" where
  "opt_prop JUndefined k = JUndefined"
| "opt_prop JNull k = JUndefined"
| "opt_prop (JObj a kvs) k = (case map_of kvs k of Some v \<Rightarrow> v | None \<Rightarrow> JUndefined)"
| "opt_prop v k = JUndefined"

text \<open>Strict equality \<open>===\<close>: primitives by value, arrays and objects by identity.\<close>

fun strict_eq :: "jsval \<Rightarrow> jsval \<Rightarrow> bool" where
  "strict_eq JUndefined JUndefined = True"
| "strict_eq JNull JNull = True"
| "strict_eq (JBool a) (JBool b) = (a = b)"
| "strict_eq (JNum a) (JNum b) = (a = b)"
| "strict_eq (JStr a) (JStr b) = (a = b)"
| "strict_eq (JArr a xs) (JArr b ys) = (a = b)"
| "strict_eq (JObj a xs) (JObj b ys) = (a = b)"
| "strict_eq _ _ = False"

subsection \<open>Conversion to string\<close>

fun digits :: "nat \<Rightarrow> string" where
  "digits n = (if n < 10 then [''0123456789'' ! n]
               else digits (n div 10) @ [''0123456789'' ! (n mod 10)])"

declare digits.simps [simp del]

definition show_int :: "int \<Rightarrow> string" where
  "show_int i = (if i < 0 then CHR ''-'' # digits (nat (- i)) else digits (nat i))"

fun join :: "string list \<Rightarrow> string" where
  "join [] = []"
| "join [s] = s"
| "join (s # t # ss) = s @ CHR '','' # join (t # ss)"

text \<open>
  What a template literal or a string concatenation makes of a value. An array prints
  its elements separated by commas, \<open>undefined\<close> and \<open>null\<close> elements as nothing; an
  object parsed from JSON prints as \<open>[object Object]\<close>.
\<close>

fun to_string :: "jsval \<Rightarrow> string" where
  "to_string JUndefined = ''undefined''"
| "to_string JNull = ''null''"
| "to_string (JBool b) = (if b then ''true'' else ''false'')"
| "to_string (JNum n) = show_int n"
| "to_string (JStr s) = s"
| "to_string (JArr a xs) = join (map (\<lambda>x. if nullish x then [] else to_string x) xs)"
| "to_string (JObj a kvs) = ''[object Object]''"

section \<open>The remote API as seen by the script\<close>

text \<open>
  A call of \<open>fetch\<close> either rejects (a network failure) or resolves to a response. Of
  a response the script reads the status, the flag \<open>ok\<close> (a status from 200 to 299)
  and the result of \<open>response.json()\<close>, which rejects when the body is not JSON.
\<close>

record response =
  status :: nat
  json :: "exn + jsval"

definition ok :: "response \<Rightarrow> bool" where
  "ok r = (200 \<le> status r \<and> status r \<le> 299)"

type_synonym fetched = "exn + response"

record request =
  http_method :: string
  url :: string
  body :: "jsval option"

definition API_URL :: string where
  "API_URL = ''https://fsa-puppy-bowl.herokuapp.com/api/2409-GHP-ET-WEB-PT/players''"

section \<open>The page\<close>

text \<open>
  Listeners are closures of the script; each is represented by the call it makes and
  the variables it captured.
\<close>

datatype handler =
    ShowDetails jsval
  | Delete jsval
  | BackToAll
  | SubmitNewPlayer nat nat

datatype node =
    Text string
  | Elem string "(string \<times> string) list" "(string \<times> handler) list" "node list"

record fields =
  f_name :: string
  f_breed :: string
  f_imageUrl :: string
  f_status :: string

text \<open>
  Modelled from the spec: the HTML page is not among the sources. Following the DOM
  surface the specification names, the document holds one container, the element with
  id \<open>players\<close>, and one form with the named controls \<open>name\<close>, \<open>breed\<close>,
  \<open>imageUrl\<close> and \<open>status\<close>. The controls are text inputs: each has a current value
  and a default value, \<open>reset\<close> restores the default, and cloning a form copies both, as
  the HTML standard prescribes for the cloning of input elements, but no listener.
\<close>

record form_el =
  current :: fields
  defaults :: fields
  listeners :: "handler list"

datatype level = Log | Err

text \<open>
  The state the script reads and writes: \<open>players\<close> is \<open>state.players\<close>; \<open>ul\<close> is the
  list of children of the container; \<open>console\<close> records each \<open>console.log\<close> and
  \<open>console.error\<close> by level and message (the first argument); \<open>requests\<close> records
  each call of \<open>fetch\<close> by method, address and the value whose JSON text is the body; \<open>forms\<close> maps the identity of a form element to the element,
  \<open>doc_form\<close> is the form that is in the document, \<open>next_ref\<close> the next unused
  identity; \<open>defaultPrevented\<close> is the flag of the submit event being dispatched.
\<close>

record world =
  players :: "jsval list"
  ul :: "node list"
  console :: "(level \<times> string) list"
  requests :: "request list"
  forms :: "nat \<Rightarrow> form_el"
  doc_form :: nat
  next_ref :: nat
  defaultPrevented :: bool

definition console_log :: "string \<Rightarrow> world \<Rightarrow> world" where
  "console_log m w = w\<lparr>console := console w @ [(Log, m)]\<rparr>"

definition console_error :: "string \<Rightarrow> world \<Rightarrow> world" where
  "console_error m w = w\<lparr>console := console w @ [(Err, m)]\<rparr>"

definition send :: "request \<Rightarrow> world \<Rightarrow> world" where
  "send q w = w\<lparr>requests := requests w @ [q]\<rparr>"

section \<open>Remote client\<close>

subsection \<open>fetchAllPlayers\<close>

text \<open>
  The body of the \<open>try\<close> block. The condition
  \<open>json.success && Array.isArray(json.data.players)\<close> reads \<open>json.data\<close> only when
  \<open>json.success\<close> is truthy.
\<close>

definition fetchAllPlayers_try :: "fetched \<Rightarrow> world \<Rightarrow> unit completion \<times> world" where
  "fetchAllPlayers_try r w =
    (let w1 = send \<lparr>http_method = ''GET'', url = API_URL, body = None\<rparr> w;
         invalid = (Normal (), (console_error ''Invalid data format:'' w1)\<lparr>players := []\<rparr>)
     in case r of
          Inl e \<Rightarrow> (Throw e, w1)
        | Inr response \<Rightarrow>
           (case json response of
              Inl e \<Rightarrow> (Throw e, w1)
            | Inr j \<Rightarrow>
               (case get_prop j ''success'' of
                  Inl e \<Rightarrow> (Throw e, w1)
                | Inr s \<Rightarrow>
                   if truthy s then
                     (case get_prop j ''data'' of
                        Inl e \<Rightarrow> (Throw e, w1)
                      | Inr d \<Rightarrow>
                         (case get_prop d ''players'' of
                            Inl e \<Rightarrow> (Throw e, w1)
                          | Inr (JArr a ps) \<Rightarrow>
                              (Normal (), console_log ''Fetched players:'' (w1\<lparr>players := ps\<rparr>))
                          | Inr _ \<Rightarrow> invalid))
                   else invalid)))"

definition fetchAllPlayers :: "fetched \<Rightarrow> world \<Rightarrow> unit completion \<times> world" where
  "fetchAllPlayers r w =
    (case fetchAllPlayers_try r w of
       (Throw err, w1) \<Rightarrow>
         (Normal (), (console_error ''Uh oh, trouble fetching players!'' w1)\<lparr>players := []\<rparr>)
     | (Normal u, w1) \<Rightarrow> (Normal u, w1))"

text \<open>
  The success envelope of the list operation, in the words of the specification: an
  object whose \<open>success\<close> flag is true (as JavaScript tests it) and whose \<open>data\<close> is an
  object with an array \<open>players\<close>.
\<close>

fun envelope_players :: "jsval \<Rightarrow> jsval list option" where
  "envelope_players (JObj a kvs) =
     (case map_of kvs ''success'' of
        None \<Rightarrow> None
      | Some s \<Rightarrow>
         if truthy s then
           (case map_of kvs ''data'' of
              Some (JObj b dkvs) \<Rightarrow>
                (case map_of dkvs ''players'' of Some (JArr c ps) \<Rightarrow> Some ps | _ \<Rightarrow> None)
            | _ \<Rightarrow> None)
         else None)"
| "envelope_players _ = None"

subsection \<open>fetchSinglePlayer\<close>

definition fetchSinglePlayer_try :: "jsval \<Rightarrow> fetched \<Rightarrow> world \<Rightarrow> jsval completion \<times> world" where
  "fetchSinglePlayer_try playerId r w =
    (let w1 = console_log ''Fetching player with ID:'' w;
         w2 = send \<lparr>http_method = ''GET'', url = API_URL @ ''/'' @ to_string playerId, body = None\<rparr> w1
     in case r of
          Inl e \<Rightarrow> (Throw e, w2)
        | Inr response \<Rightarrow>
           (let w3 = console_log ''API Response:'' w2
            in if \<not> ok response then
                 (Throw (Error (''HTTP error! status: '' @ digits (status response))), w3)
               else
                 (case json response of
                    Inl e \<Rightarrow> (Throw e, w3)
                  | Inr j \<Rightarrow>
                     (let w4 = console_log ''Parsed JSON:'' w3
                      in case get_prop j ''data'' of
                           Inl e \<Rightarrow> (Throw e, w4)
                         | Inr d \<Rightarrow> (Normal d, w4)))))"

definition fetchSinglePlayer :: "jsval \<Rightarrow> fetched \<Rightarrow> world \<Rightarrow> jsval completion \<times> world" where
  "fetchSinglePlayer playerId r w =
    (case fetchSinglePlayer_try playerId r w of
       (Throw err, w1) \<Rightarrow>
         (Normal JNull,
          console_error (''Error fetching player #'' @ to_string playerId @ '':'') w1)
     | (Normal v, w1) \<Rightarrow> (Normal v, w1))"

subsection \<open>addNewPlayer\<close>

definition addNewPlayer_try :: "jsval \<Rightarrow> fetched \<Rightarrow> world \<Rightarrow> jsval completion \<times> world" where
  "addNewPlayer_try player r w =
    (let w1 = send \<lparr>http_method = ''POST'', url = API_URL, body = Some player\<rparr> w
     in case r of
          Inl e \<Rightarrow> (Throw e, w1)
        | Inr response \<Rightarrow>
           (case json response of
              Inl e \<Rightarrow> (Throw e, w1)
            | Inr j \<Rightarrow>
               if truthy (opt_prop (opt_prop j ''data'') ''player'') then
                 (case get_prop j ''data'' of
                    Inl e \<Rightarrow> (Throw e, w1)
                  | Inr d \<Rightarrow>
                     (case get_prop d ''player'' of
                        Inl e \<Rightarrow> (Throw e, w1)
                      | Inr p \<Rightarrow> (Normal p, w1)))
               else (Normal JNull, console_error ''Error adding player:'' w1)))"

definition addNewPlayer :: "jsval \<Rightarrow> fetched \<Rightarrow> world \<Rightarrow> jsval completion \<times> world" where
  "addNewPlayer player r w =
    (case addNewPlayer_try player r w of
       (Throw err, w1) \<Rightarrow>
         (Normal JNull,
          console_error ''Oops, something went wrong with adding that player!'' w1)
     | (Normal v, w1) \<Rightarrow> (Normal v, w1))"

section \<open>List view\<close>

text \<open>The children an element has after \<open>el.textContent = v\<close>.\<close>

definition text_content :: "jsval \<Rightarrow> node list" where
  "text_content v = (if nullish v \<or> to_string v = [] then [] else [Text (to_string v)])"

text \<open>
  The card built for one player by the callback of \<open>forEach\<close>; reading a property of an
  entry that is \<open>undefined\<close> or \<open>null\<close> throws.
\<close>

definition player_card :: "jsval \<Rightarrow> exn + node" where
  "player_card player =
    (case get_prop player ''name'' of
       Inl e \<Rightarrow> Inl e
     | Inr name \<Rightarrow>
        (case get_prop player ''id'' of
           Inl e \<Rightarrow> Inl e
         | Inr pid \<Rightarrow>
            (case get_prop player ''imageUrl'' of
               Inl e \<Rightarrow> Inl e
             | Inr img \<Rightarrow>
                Inr (Elem ''li'' [] []
                  [Elem ''h3'' [] [] (text_content name),
                   Elem ''h3'' [] [] [Text (''ID: '' @ to_string pid)],
                   Elem ''img'' [(''src'', to_string img), (''alt'', to_string name)] [] [],
                   Elem ''button'' [(''style'', ''display: block;'')]
                     [(''click'', ShowDetails player)] [Text ''More details''],
                   Elem ''button'' [(''style'', ''display: block;'')]
                     [(''click'', Delete player)] [Text ''Delete'']]))))"

definition render_player :: "jsval \<Rightarrow> world \<Rightarrow> unit completion \<times> world" where
  "render_player player w =
    (let w1 = console_log ''Processing player:'' w
     in case player_card player of
          Inl e \<Rightarrow> (Throw e, w1)
        | Inr li \<Rightarrow>
           (let w2 = console_log ''Detail button created:'' w1;
                w3 = console_log ''Delete button created:'' w2
            in (Normal (), w3\<lparr>ul := ul w3 @ [li]\<rparr>)))"

fun forEach_player :: "jsval list \<Rightarrow> world \<Rightarrow> unit completion \<times> world" where
  "forEach_player [] w = (Normal (), w)"
| "forEach_player (p # ps) w =
    (case render_player p w of
       (Throw e, w1) \<Rightarrow> (Throw e, w1)
     | (Normal u, w1) \<Rightarrow> forEach_player ps w1)"

definition no_players_row :: node where
  "no_players_row = Elem ''li'' [] [] [Text ''No players.'']"

definition renderAllPlayers :: "world \<Rightarrow> unit completion \<times> world" where
  "renderAllPlayers w =
    (let w1 = w\<lparr>ul := []\<rparr>
     in if length (players w1) = 0 then (Normal (), w1\<lparr>ul := [no_players_row]\<rparr>)
        else
          (case forEach_player (players w1) w1 of
             (Throw e, w2) \<Rightarrow> (Throw e, w2)
           | (Normal u, w2) \<Rightarrow> (Normal (), console_log ''Updated UL Element:'' w2)))"

subsection \<open>removePlayer\<close>

text \<open>\<open>state.players.filter((p) => p.id !== player.id)\<close>\<close>

fun filter_players :: "jsval \<Rightarrow> jsval list \<Rightarrow> exn + jsval list" where
  "filter_players player [] = Inr []"
| "filter_players player (p # ps) =
    (case get_prop p ''id'' of
       Inl e \<Rightarrow> Inl e
     | Inr a \<Rightarrow>
        (case get_prop player ''id'' of
           Inl e \<Rightarrow> Inl e
         | Inr b \<Rightarrow>
            (case filter_players player ps of
               Inl e \<Rightarrow> Inl e
             | Inr rest \<Rightarrow> Inr (if \<not> strict_eq a b then p # rest else rest))))"

definition removePlayer_try :: "jsval \<Rightarrow> fetched \<Rightarrow> world \<Rightarrow> unit completion \<times> world" where
  "removePlayer_try player r w =
    (case get_prop player ''id'' of
       Inl e \<Rightarrow> (Throw e, w)
     | Inr pid \<Rightarrow>
        (let w1 = send \<lparr>http_method = ''DELETE'', url = API_URL @ ''/'' @ to_string pid,
                         body = None\<rparr> w
         in case r of
              Inl e \<Rightarrow> (Throw e, w1)
            | Inr response \<Rightarrow>
               if \<not> ok response then
                 (Throw (Error (''Unable to delete player due to Http error: ''
                                 @ digits (status response))), w1)
               else
                 (case filter_players player (players w1) of
                    Inl e \<Rightarrow> (Throw e, w1)
                  | Inr ps \<Rightarrow> renderAllPlayers (w1\<lparr>players := ps\<rparr>))))"

text \<open>The message of the \<open>catch\<close> block reads \<open>player.id\<close> again.\<close>

definition removePlayer :: "jsval \<Rightarrow> fetched \<Rightarrow> world \<Rightarrow> unit completion \<times> world" where
  "removePlayer player r w =
    (case removePlayer_try player r w of
       (Throw err, w1) \<Rightarrow>
         (case get_prop player ''id'' of
            Inl e \<Rightarrow> (Throw e, w1)
          | Inr pid \<Rightarrow>
             (Normal (),
              console_error (''Whoops, trouble removing player #'' @ to_string pid
                             @ '' from the roster!'') w1))
     | (Normal u, w1) \<Rightarrow> (Normal u, w1))"

section \<open>Detail view\<close>

definition not_found_row :: node where
  "not_found_row = Elem ''li'' [] [] [Text ''Player not found.'']"

text \<open>The card built from the nested record \<open>fetchedPlayer.player\<close>.\<close>

definition detail_card :: "jsval \<Rightarrow> exn + node" where
  "detail_card p =
    (case get_prop p ''name'' of
       Inl e \<Rightarrow> Inl e
     | Inr name \<Rightarrow>
    (case get_prop p ''id'' of
       Inl e \<Rightarrow> Inl e
     | Inr pid \<Rightarrow>
    (case get_prop p ''breed'' of
       Inl e \<Rightarrow> Inl e
     | Inr breed \<Rightarrow>
    (case get_prop p ''status'' of
       Inl e \<Rightarrow> Inl e
     | Inr stat \<Rightarrow>
    (case get_prop p ''imageUrl'' of
       Inl e \<Rightarrow> Inl e
     | Inr imageUrl \<Rightarrow>
        Inr (Elem ''li'' [] []
          [Elem ''h3'' [] [] (text_content name),
           Elem ''h3'' [] [] [Text (''ID: '' @ to_string pid)],
           Elem ''h4'' [] [] [Text (''Breed: '' @ to_string breed)],
           Elem ''h4'' [] [] [Text (''Status: '' @ to_string stat)],
           Elem ''img''
             [(''src'', to_string (if truthy imageUrl then imageUrl else JStr [])),
              (''alt'', to_string name)] [] [],
           Elem ''button'' [] [(''click'', BackToAll)] [Text ''Back to all players'']]))))))"

definition renderSinglePlayer :: "jsval \<Rightarrow> fetched \<Rightarrow> world \<Rightarrow> unit completion \<times> world" where
  "renderSinglePlayer player r w =
    (let w1 = w\<lparr>ul := []\<rparr>
     in case get_prop player ''id'' of
          Inl e \<Rightarrow> (Throw e, w1)
        | Inr pid \<Rightarrow>
           (case fetchSinglePlayer pid r w1 of
              (Throw e, w2) \<Rightarrow> (Throw e, w2)
            | (Normal fetchedPlayer, w2) \<Rightarrow>
               (let w3 = console_log ''Fetched player for details:'' w2
                in if \<not> truthy fetchedPlayer then (Normal (), w3\<lparr>ul := [not_found_row]\<rparr>)
                   else
                     (case get_prop fetchedPlayer ''player'' of
                        Inl e \<Rightarrow> (Throw e, w3)
                      | Inr p \<Rightarrow>
                         if \<not> truthy p then (Normal (), w3\<lparr>ul := [not_found_row]\<rparr>)
                         else
                           (case detail_card p of
                              Inl e \<Rightarrow> (Throw e, w3)
                            | Inr li \<Rightarrow> (Normal (), w3\<lparr>ul := ul w3 @ [li]\<rparr>))))))"

section \<open>Form controller and start\<close>

text \<open>
  \<open>renderNewPlayerForm\<close> replaces the form of the document by a clone and binds the
  submit listener to the clone. The listener captures both \<open>form\<close>, the element that
  was replaced, and \<open>newForm\<close>, the clone.
\<close>

definition renderNewPlayerForm :: "world \<Rightarrow> unit completion \<times> world" where
  "renderNewPlayerForm w =
    (let form = doc_form w;
         newForm = next_ref w;
         clone = (forms w form)\<lparr>listeners := []\<rparr>;
         w1 = w\<lparr>forms := (forms w)(newForm := clone), next_ref := Suc (next_ref w)\<rparr>;
         w2 = w1\<lparr>doc_form := newForm\<rparr>
     in (Normal (),
         w2\<lparr>forms := (forms w2)(newForm := (forms w2 newForm)
              \<lparr>listeners := listeners (forms w2 newForm) @ [SubmitNewPlayer form newForm]\<rparr>)\<rparr>))"

definition init :: "fetched \<Rightarrow> world \<Rightarrow> unit completion \<times> world" where
  "init r w =
    (case fetchAllPlayers r w of
       (Throw e, w1) \<Rightarrow> (Throw e, w1)
     | (Normal u, w1) \<Rightarrow>
        (case renderAllPlayers w1 of
           (Throw e, w2) \<Rightarrow> (Throw e, w2)
         | (Normal u, w2) \<Rightarrow> renderNewPlayerForm w2))"

text \<open>
  The submit listener, with the response to the create request and the response to the
  list request of the \<open>init\<close> it starts. The listener does not await \<open>init\<close>: whatever
  \<open>init\<close> throws is not thrown by the listener.
\<close>

definition submit_listener ::
  "nat \<Rightarrow> nat \<Rightarrow> fetched \<Rightarrow> fetched \<Rightarrow> world \<Rightarrow> unit completion \<times> world" where
  "submit_listener form newForm created listed w =
    (let w1 = w\<lparr>defaultPrevented := True\<rparr>;
         entered = current (forms w1 newForm);
         player = JObj (next_ref w1)
           [(''name'', JStr (f_name entered)),
            (''breed'', JStr (f_breed entered)),
            (''imageUrl'', JStr (f_imageUrl entered)),
            (''status'', JStr (f_status entered))];
         w2 = w1\<lparr>next_ref := Suc (next_ref w1)\<rparr>
     in case addNewPlayer player created w2 of
          (Throw e, w3) \<Rightarrow> (Throw e, w3)
        | (Normal v, w3) \<Rightarrow>
           (let w4 = w3\<lparr>forms := (forms w3)(form := (forms w3 form)
                         \<lparr>current := defaults (forms w3 form)\<rparr>)\<rparr>
            in (Normal (), snd (init listed w4))))"

text \<open>What a listener runs when its event fires.\<close>

fun fire :: "handler \<Rightarrow> fetched \<Rightarrow> fetched \<Rightarrow> world \<Rightarrow> unit completion \<times> world" where
  "fire (ShowDetails player) r r' w = renderSinglePlayer player r w"
| "fire (Delete player) r r' w = removePlayer player r w"
| "fire BackToAll r r' w = init r w"
| "fire (SubmitNewPlayer form newForm) r r' w = submit_listener form newForm r r' w"

text \<open>The page before the script has run: nothing rendered, an empty form.\<close>

definition blank :: fields where
  "blank = \<lparr>f_name = [], f_breed = [], f_imageUrl = [], f_status = []\<rparr>"

definition page_load :: world where
  "page_load =
    \<lparr>players = [], ul = [], console = [], requests = [],
     forms = (\<lambda>a. \<lparr>current = blank, defaults = blank, listeners = []\<rparr>),
     doc_form = 0, next_ref = 1, defaultPrevented = False\<rparr>"

section \<open>Notions used in the statements\<close>

text \<open>
  The cards that \<open>forEach\<close> appends for a list of entries: one per entry, up to the
  first entry whose properties cannot be read.
\<close>

fun rendered :: "jsval list \<Rightarrow> node list" where
  "rendered [] = []"
| "rendered (p # ps) = (case player_card p of Inl e \<Rightarrow> [] | Inr li \<Rightarrow> li # rendered ps)"

text \<open>The request and the console message of \<open>removePlayer\<close> for a player with id \<open>x\<close>.\<close>

definition delete_request :: "jsval \<Rightarrow> request" where
  "delete_request x =
     \<lparr>http_method = ''DELETE'', url = API_URL @ ''/'' @ to_string x, body = None\<rparr>"

definition delete_failure :: "jsval \<Rightarrow> string" where
  "delete_failure x =
     ''Whoops, trouble removing player #'' @ to_string x @ '' from the roster!''"

subsection \<open>Example data\<close>

definition rex :: jsval where
  "rex = JObj 21 [(''id'', JNum 7), (''name'', JStr ''Rex''), (''imageUrl'', JStr ''rex.png'')]"

definition bo :: jsval where
  "bo = JObj 22 [(''id'', JNum 12), (''name'', JStr ''Bo''), (''imageUrl'', JStr ''bo.png'')]"

definition rex_twin :: jsval where
  "rex_twin = JObj 23 [(''id'', JNum 7), (''name'', JStr ''Rex II'')]"

definition no_content :: response where
  "no_content = \<lparr>status = 204, json = Inl SyntaxError\<rparr>"

definition server_error :: response where
  "server_error = \<lparr>status = 500, json = Inl SyntaxError\<rparr>"

definition not_found :: response where
  "not_found = \<lparr>status = 404, json = Inr (JObj 30 [(''success'', JBool False)])\<rparr>"

definition no_player :: response where
  "no_player = \<lparr>status = 200, json = Inr (JObj 30 [(''data'', JObj 31 [])])\<rparr>"

definition empty_roster :: response where
  "empty_roster = \<lparr>status = 200, json = Inr (JObj 30
     [(''success'', JBool True), (''data'', JObj 31 [(''players'', JArr 32 [])])])\<rparr>"

definition roster_rex :: response where
  "roster_rex = \<lparr>status = 200, json = Inr (JObj 40
     [(''success'', JBool True), (''data'', JObj 41 [(''players'', JArr 42 [rex])])])\<rparr>"

definition created_rex :: response where
  "created_rex = \<lparr>status = 200, json = Inr (JObj 50
     [(''success'', JBool True), (''data'', JObj 51 [(''player'', rex)])])\<rparr>"

definition rejected_rex :: response where
  "rejected_rex = \<lparr>status = 500, json = Inr (JObj 50
     [(''success'', JBool False), (''data'', JObj 51 [(''player'', rex)])])\<rparr>"

definition rex_fields :: fields where
  "rex_fields = \<lparr>f_name = ''Rex'', f_breed = ''Lab'', f_imageUrl = [], f_status = ''Bench''\<rparr>"

text \<open>
  The page after the script has started against an empty roster and the user has typed
  into the form that is in the document.
\<close>

definition typed :: world where
  "typed =
    (let w = snd (init (Inr empty_roster) page_load)
     in w\<lparr>forms := (forms w)(doc_form w := (forms w (doc_form w))\<lparr>current := rex_fields\<rparr>)\<rparr>)"

section \<open>Properties of the remote client\<close>

subsection \<open>Reading properties\<close>

lemma get_prop_opt_prop: "\<not> nullish v \<Longrightarrow> get_prop v k = Inr (opt_prop v k)"
  by (cases v) (simp_all split: option.splits)

lemma opt_prop_nullish: "nullish v \<Longrightarrow> opt_prop v k = JUndefined"
  by (cases v) simp_all

lemma truthy_not_nullish: "truthy v \<Longrightarrow> \<not> nullish v"
  by (cases v) simp_all

lemma truthy_opt_prop: "truthy (opt_prop v k) \<Longrightarrow> \<not> nullish v"
  by (cases v) simp_all

subsection \<open>The list operation\<close>

text \<open>
  The envelope of the specification is the one the condition of the script accepts.
\<close>

lemma envelope_players_iff:
  "envelope_players j = Some ps \<longleftrightarrow>
     (\<exists>s d c. get_prop j ''success'' = Inr s \<and> truthy s \<and> get_prop j ''data'' = Inr d
        \<and> get_prop d ''players'' = Inr (JArr c ps))"
proof (cases j)
  case (JObj a kvs)
  show ?thesis
  proof (cases "map_of kvs ''success''")
    case None
    with JObj show ?thesis by simp
  next
    case (Some s)
    show ?thesis
    proof (cases "map_of kvs ''data''")
      case None
      with JObj Some show ?thesis by simp
    next
      case (Some d)
      with JObj \<open>map_of kvs ''success'' = Some s\<close> show ?thesis
        by (cases d) (auto split: option.splits jsval.splits)
    qed
  qed
qed simp_all

lemma fetchAllPlayers_Some:
  assumes "json resp = Inr j" "envelope_players j = Some ps"
  shows "fetchAllPlayers (Inr resp) w =
     (Normal (), console_log ''Fetched players:''
        ((send \<lparr>http_method = ''GET'', url = API_URL, body = None\<rparr> w)\<lparr>players := ps\<rparr>))"
proof -
  from assms(2) obtain s d c where
    "get_prop j ''success'' = Inr s" "truthy s" "get_prop j ''data'' = Inr d"
    "get_prop d ''players'' = Inr (JArr c ps)"
    unfolding envelope_players_iff by blast
  with assms(1) show ?thesis
    by (simp add: fetchAllPlayers_def fetchAllPlayers_try_def)
qed

lemma fetchAllPlayers_None:
  assumes "json resp = Inr j" "envelope_players j = None"
  shows "fst (fetchAllPlayers (Inr resp) w) = Normal () \<and>
         players (snd (fetchAllPlayers (Inr resp) w)) = []"
proof -
  have no: "\<And>s d c ps. get_prop j ''success'' = Inr s \<Longrightarrow> truthy s \<Longrightarrow>
      get_prop j ''data'' = Inr d \<Longrightarrow> get_prop d ''players'' \<noteq> Inr (JArr c ps)"
    using assms(2) envelope_players_iff [of j] by (metis option.distinct(1))
  show ?thesis
    using assms(1) no
    by (auto simp: fetchAllPlayers_def fetchAllPlayers_try_def Let_def console_error_def
        split: sum.splits jsval.splits)
qed

lemma fetchAllPlayers_fail:
  "fetchAllPlayers (Inl e) w = (Normal (), (console_error ''Uh oh, trouble fetching players!''
      (send \<lparr>http_method = ''GET'', url = API_URL, body = None\<rparr> w))\<lparr>players := []\<rparr>)"
  "json resp = Inl e \<Longrightarrow> fetchAllPlayers (Inr resp) w =
     (Normal (), (console_error ''Uh oh, trouble fetching players!''
      (send \<lparr>http_method = ''GET'', url = API_URL, body = None\<rparr> w))\<lparr>players := []\<rparr>)"
  by (simp_all add: fetchAllPlayers_def fetchAllPlayers_try_def)

text \<open>
  C1: whatever the list request comes to, \<open>fetchAllPlayers\<close> completes normally (no
  exception escapes). When the response parses to a well-formed success envelope,
  \<open>state.players\<close> is afterwards exactly the sequence of the envelope, in the same
  order; on every other outcome (a flag that is false, a \<open>players\<close> field that is not an
  array, a body that does not parse, a network failure) it is the empty sequence.
\<close>

theorem fetchAllPlayers_state:
  "fst (fetchAllPlayers r w) = Normal () \<and>
   players (snd (fetchAllPlayers r w)) =
     (case r of Inl e \<Rightarrow> [] | Inr resp \<Rightarrow>
        (case json resp of Inl e \<Rightarrow> [] | Inr j \<Rightarrow>
           (case envelope_players j of Some ps \<Rightarrow> ps | None \<Rightarrow> [])))"
proof (cases r)
  case (Inl e)
  then show ?thesis by (simp add: fetchAllPlayers_fail console_error_def)
next
  case (Inr resp)
  show ?thesis
  proof (cases "json resp")
    case (Inl e)
    with Inr show ?thesis by (simp add: fetchAllPlayers_fail console_error_def)
  next
    case j: (Inr j)
    show ?thesis
    proof (cases "envelope_players j")
      case None
      with Inr j fetchAllPlayers_None [of resp j w] show ?thesis by simp
    next
      case (Some ps)
      with Inr j fetchAllPlayers_Some [of resp j ps w] show ?thesis
        by (simp add: console_log_def)
    qed
  qed
qed

subsection \<open>The detail operation\<close>

text \<open>
  C3, as the claim states it, fails: for a successful response \<open>fetchSinglePlayer\<close>
  returns the \<open>data\<close> field of the body, the wrapper that holds the player under
  \<open>player\<close>, not the player record itself.
\<close>

theorem fetchSinglePlayer_nested_record_counterexample:
  "fst (fetchSinglePlayer (JNum 1)
      (Inr \<lparr>status = 200, json = Inr (JObj 0 [(''data'', JObj 1 [(''player'',
          JObj 2 [(''id'', JNum 1), (''name'', JStr ''Rex'')])])])\<rparr>) page_load)
     = Normal (JObj 1 [(''player'', JObj 2 [(''id'', JNum 1), (''name'', JStr ''Rex'')])])
   \<and> fst (fetchSinglePlayer (JNum 1)
      (Inr \<lparr>status = 200, json = Inr (JObj 0 [(''data'', JObj 1 [(''player'',
          JObj 2 [(''id'', JNum 1), (''name'', JStr ''Rex'')])])])\<rparr>) page_load)
     \<noteq> Normal (JObj 2 [(''id'', JNum 1), (''name'', JStr ''Rex'')])"
  by (simp add: fetchSinglePlayer_def fetchSinglePlayer_try_def ok_def)

text \<open>
  C3, amended: \<open>fetchSinglePlayer\<close> never throws. When the status is a success status
  and the body parses to a value other than \<open>null\<close>, it returns the \<open>data\<close> field of
  the body (the wrapper in which the detail view looks up \<open>player\<close>; \<open>undefined\<close> when
  the body has no such field). On a network error, another status, a body that does not
  parse or the body \<open>null\<close>, it returns \<open>null\<close>.
\<close>

theorem fetchSinglePlayer_result:
  "fst (fetchSinglePlayer playerId r w) = Normal
     (case r of
        Inl e \<Rightarrow> JNull
      | Inr resp \<Rightarrow>
         if ok resp then
           (case json resp of
              Inl e \<Rightarrow> JNull
            | Inr j \<Rightarrow> (case get_prop j ''data'' of Inl e \<Rightarrow> JNull | Inr d \<Rightarrow> d))
         else JNull)"
  by (simp add: fetchSinglePlayer_def fetchSinglePlayer_try_def Let_def split: sum.splits)

subsection \<open>The create operation\<close>

lemma addNewPlayer_status:
  "addNewPlayer player (Inr (resp\<lparr>status := s\<rparr>)) w = addNewPlayer player (Inr resp) w"
  by (simp add: addNewPlayer_def addNewPlayer_try_def)

lemma addNewPlayer_value:
  "fst (addNewPlayer player r w) = Normal
     (case r of
        Inl e \<Rightarrow> JNull
      | Inr resp \<Rightarrow>
         (case json resp of
            Inl e \<Rightarrow> JNull
          | Inr j \<Rightarrow>
             if truthy (opt_prop (opt_prop j ''data'') ''player'') then
               opt_prop (opt_prop j ''data'') ''player''
             else JNull))"
proof (cases r)
  case (Inl e)
  then show ?thesis by (simp add: addNewPlayer_def addNewPlayer_try_def)
next
  case (Inr resp)
  show ?thesis
  proof (cases "json resp")
    case (Inl e)
    with Inr show ?thesis by (simp add: addNewPlayer_def addNewPlayer_try_def)
  next
    case j: (Inr j)
    show ?thesis
    proof (cases "truthy (opt_prop (opt_prop j ''data'') ''player'')")
      case True
      then have d: "\<not> nullish (opt_prop j ''data'')" by (rule truthy_opt_prop)
      then have "\<not> nullish j" using opt_prop_nullish [of j "''data''"] by auto
      with d have "get_prop j ''data'' = Inr (opt_prop j ''data'')"
        "get_prop (opt_prop j ''data'') ''player'' = Inr (opt_prop (opt_prop j ''data'') ''player'')"
        by (simp_all add: get_prop_opt_prop)
      with Inr j True show ?thesis by (simp add: addNewPlayer_def addNewPlayer_try_def)
    next
      case False
      with Inr j show ?thesis by (simp add: addNewPlayer_def addNewPlayer_try_def)
    qed
  qed
qed

text \<open>
  C9: \<open>addNewPlayer\<close> never reads the status of the response: changing the status
  changes nothing. It never throws. It returns \<open>json.data.player\<close> whenever the body
  parses and that nested field holds a value that JavaScript treats as true (any object
  does), and \<open>null\<close> when the field is missing, the body does not parse or the
  request fails.
\<close>

theorem addNewPlayer_ignores_status:
  "addNewPlayer player (Inr (resp\<lparr>status := s\<rparr>)) w = addNewPlayer player (Inr resp) w
   \<and> fst (addNewPlayer player r w) = Normal
     (case r of
        Inl e \<Rightarrow> JNull
      | Inr resp \<Rightarrow>
         (case json resp of
            Inl e \<Rightarrow> JNull
          | Inr j \<Rightarrow>
             if truthy (opt_prop (opt_prop j ''data'') ''player'') then
               opt_prop (opt_prop j ''data'') ''player''
             else JNull))"
  by (intro conjI addNewPlayer_status addNewPlayer_value)

text \<open>
  A response with status 500 whose body carries the created record yields the record.
\<close>

lemma addNewPlayer_rejected_example:
  "\<not> ok rejected_rex \<and> fst (addNewPlayer player (Inr rejected_rex) page_load) = Normal rex"
  by (simp add: addNewPlayer_def addNewPlayer_try_def rejected_rex_def rex_def ok_def)

section \<open>Properties of the list view\<close>

lemma render_player_Inl:
  "player_card p = Inl e \<Longrightarrow> render_player p w = (Throw e, console_log ''Processing player:'' w)"
  by (simp add: render_player_def)

lemma render_player_Inr:
  "player_card p = Inr li \<Longrightarrow> render_player p w =
     (Normal (), (console_log ''Delete button created:'' (console_log ''Detail button created:''
        (console_log ''Processing player:'' w)))\<lparr>ul := ul w @ [li]\<rparr>)"
  by (simp add: render_player_def console_log_def)

lemma forEach_player_ul:
  "ul (snd (forEach_player ps w)) = ul w @ rendered ps"
proof (induction ps arbitrary: w)
  case Nil
  show ?case by simp
next
  case (Cons p ps)
  show ?case
  proof (cases "player_card p")
    case (Inl e)
    then show ?thesis by (simp add: render_player_Inl console_log_def)
  next
    case (Inr li)
    then show ?thesis by (simp add: render_player_Inr Cons.IH)
  qed
qed

lemma forEach_player_players:
  "players (snd (forEach_player ps w)) = players w"
proof (induction ps arbitrary: w)
  case Nil
  show ?case by simp
next
  case (Cons p ps)
  show ?case
  proof (cases "player_card p")
    case (Inl e)
    then show ?thesis by (simp add: render_player_Inl console_log_def)
  next
    case (Inr li)
    then show ?thesis by (simp add: render_player_Inr Cons.IH console_log_def)
  qed
qed

lemma forEach_player_fst:
  "fst (forEach_player ps w) = fst (forEach_player ps w')"
proof (induction ps arbitrary: w w')
  case Nil
  show ?case by simp
next
  case (Cons p ps)
  show ?case
  proof (cases "player_card p")
    case (Inl e)
    then show ?thesis by (simp add: render_player_Inl)
  next
    case (Inr li)
    then show ?thesis using Cons.IH by (simp add: render_player_Inr)
  qed
qed

lemma renderAllPlayers_empty:
  "players w = [] \<Longrightarrow> renderAllPlayers w = (Normal (), w\<lparr>ul := [no_players_row]\<rparr>)"
  by (simp add: renderAllPlayers_def)

lemma renderAllPlayers_ul:
  "ul (snd (renderAllPlayers w)) =
     (if players w = [] then [no_players_row] else rendered (players w))"
proof (cases "players w = []")
  case True
  then show ?thesis by (simp add: renderAllPlayers_empty)
next
  case False
  obtain c w2 where e: "forEach_player (players w) (w\<lparr>ul := []\<rparr>) = (c, w2)"
    by force
  have "ul w2 = rendered (players w)"
    using forEach_player_ul [of "players w" "w\<lparr>ul := []\<rparr>"] e by simp
  with False e show ?thesis
    by (cases c) (simp_all add: renderAllPlayers_def console_log_def)
qed

lemma renderAllPlayers_players:
  "players (snd (renderAllPlayers w)) = players w"
proof (cases "players w = []")
  case True
  then show ?thesis by (simp add: renderAllPlayers_empty)
next
  case False
  obtain c w2 where e: "forEach_player (players w) (w\<lparr>ul := []\<rparr>) = (c, w2)"
    by force
  have "players w2 = players w"
    using forEach_player_players [of "players w" "w\<lparr>ul := []\<rparr>"] e by simp
  with False e show ?thesis
    by (cases c) (simp_all add: renderAllPlayers_def console_log_def)
qed

lemma renderAllPlayers_fst:
  "players w = players w' \<Longrightarrow> fst (renderAllPlayers w) = fst (renderAllPlayers w')"
proof (cases "players w = []")
  case True
  moreover assume "players w = players w'"
  ultimately show ?thesis by (simp add: renderAllPlayers_empty)
next
  case False
  assume eq: "players w = players w'"
  obtain c w2 where e: "forEach_player (players w) (w\<lparr>ul := []\<rparr>) = (c, w2)"
    by force
  obtain c' w2' where e': "forEach_player (players w') (w'\<lparr>ul := []\<rparr>) = (c', w2')"
    by force
  have "c = c'"
    using forEach_player_fst [of "players w" "w\<lparr>ul := []\<rparr>" "w'\<lparr>ul := []\<rparr>"] e e' eq
    by simp
  with False eq e e' show ?thesis
    by (cases c') (simp_all add: renderAllPlayers_def)
qed

text \<open>
  C7: rendering the list twice in a row, with the state unchanged, leaves the container
  with the same content as rendering it once, and completes the same way; rendering
  does not change the state, and what it leaves in the container does not depend on
  what the container held before (it replaces, it does not append).
\<close>

theorem renderAllPlayers_idempotent:
  "ul (snd (renderAllPlayers (snd (renderAllPlayers w)))) = ul (snd (renderAllPlayers w))
   \<and> fst (renderAllPlayers (snd (renderAllPlayers w))) = fst (renderAllPlayers w)
   \<and> players (snd (renderAllPlayers w)) = players w
   \<and> ul (snd (renderAllPlayers (w\<lparr>ul := before\<rparr>))) = ul (snd (renderAllPlayers w))"
  by (simp add: renderAllPlayers_ul renderAllPlayers_players
      renderAllPlayers_fst [of "snd (renderAllPlayers w)" w])

lemma player_card_ok:
  "\<not> nullish p \<Longrightarrow> player_card p = Inr (Elem ''li'' [] []
     [Elem ''h3'' [] [] (text_content (opt_prop p ''name'')),
      Elem ''h3'' [] [] [Text (''ID: '' @ to_string (opt_prop p ''id''))],
      Elem ''img'' [(''src'', to_string (opt_prop p ''imageUrl'')),
                    (''alt'', to_string (opt_prop p ''name''))] [] [],
      Elem ''button'' [(''style'', ''display: block;'')]
        [(''click'', ShowDetails p)] [Text ''More details''],
      Elem ''button'' [(''style'', ''display: block;'')]
        [(''click'', Delete p)] [Text ''Delete'']])"
  by (simp add: player_card_def get_prop_opt_prop)

lemma rendered_length:
  "list_all (\<lambda>p. \<not> nullish p) ps \<Longrightarrow> length (rendered ps) = length ps"
  by (induction ps) (simp_all add: player_card_ok)

lemma rendered_nth:
  "list_all (\<lambda>p. \<not> nullish p) ps \<Longrightarrow> i < length ps \<Longrightarrow>
     \<exists>rest. rendered ps ! i = Elem ''li'' [] []
       (Elem ''h3'' [] [] (text_content (opt_prop (ps ! i) ''name''))
        # Elem ''h3'' [] [] [Text (''ID: '' @ to_string (opt_prop (ps ! i) ''id''))] # rest)"
proof (induction ps arbitrary: i)
  case Nil
  then show ?case by simp
next
  case (Cons p ps)
  show ?case
  proof (cases i)
    case 0
    with Cons.prems show ?thesis by (simp add: player_card_ok)
  next
    case (Suc k)
    with Cons.prems Cons.IH [of k] show ?thesis by (simp add: player_card_ok)
  qed
qed

lemma forEach_player_ok:
  "list_all (\<lambda>p. \<not> nullish p) ps \<Longrightarrow> fst (forEach_player ps w) = Normal ()"
proof (induction ps arbitrary: w)
  case Nil
  show ?case by simp
next
  case (Cons p ps)
  then show ?case by (simp add: render_player_Inr [OF player_card_ok])
qed

lemma renderAllPlayers_ok:
  "list_all (\<lambda>p. \<not> nullish p) (players w) \<Longrightarrow> fst (renderAllPlayers w) = Normal ()"
proof (cases "players w = []")
  case True
  then show ?thesis by (simp add: renderAllPlayers_empty)
next
  case False
  assume a: "list_all (\<lambda>p. \<not> nullish p) (players w)"
  obtain c w2 where e: "forEach_player (players w) (w\<lparr>ul := []\<rparr>) = (c, w2)"
    by force
  have "c = Normal ()"
    using forEach_player_ok [OF a, of "w\<lparr>ul := []\<rparr>"] e by simp
  with False e show ?thesis
    by (simp add: renderAllPlayers_def)
qed

text \<open>
  C6: with an empty state, \<open>renderAllPlayers\<close> leaves exactly one row in the
  container, the placeholder \<open>No players.\<close>, and no card. With \<open>N\<close> entries (player
  records, that is, none of them \<open>undefined\<close> or \<open>null\<close>) it leaves exactly \<open>N\<close>
  cards, in the order of the state; the card of an entry starts with a heading that
  shows the name of the entry and a heading that shows \<open>ID:\<close> and its id.
\<close>

theorem renderAllPlayers_rows:
  "(players w = [] \<longrightarrow>
      renderAllPlayers w = (Normal (), w\<lparr>ul := [Elem ''li'' [] [] [Text ''No players.'']]\<rparr>))
   \<and> (players w \<noteq> [] \<and> list_all (\<lambda>p. \<not> nullish p) (players w) \<longrightarrow>
      fst (renderAllPlayers w) = Normal ()
      \<and> length (ul (snd (renderAllPlayers w))) = length (players w)
      \<and> (\<forall>i < length (players w). \<exists>rest.
           ul (snd (renderAllPlayers w)) ! i = Elem ''li'' [] []
             (Elem ''h3'' [] [] (text_content (opt_prop (players w ! i) ''name''))
              # Elem ''h3'' [] [] [Text (''ID: '' @ to_string (opt_prop (players w ! i) ''id''))]
              # rest)))"
proof -
  have none: "renderAllPlayers w = (Normal (), w\<lparr>ul := [Elem ''li'' [] [] [Text ''No players.'']]\<rparr>)"
    if "players w = []"
    using that by (simp add: renderAllPlayers_empty no_players_row_def)
  have some: "fst (renderAllPlayers w) = Normal ()
      \<and> length (ul (snd (renderAllPlayers w))) = length (players w)
      \<and> (\<forall>i < length (players w). \<exists>rest.
           ul (snd (renderAllPlayers w)) ! i = Elem ''li'' [] []
             (Elem ''h3'' [] [] (text_content (opt_prop (players w ! i) ''name''))
              # Elem ''h3'' [] [] [Text (''ID: '' @ to_string (opt_prop (players w ! i) ''id''))]
              # rest))"
    if ne: "players w \<noteq> []" and objs: "list_all (\<lambda>p. \<not> nullish p) (players w)"
  proof -
    have u: "ul (snd (renderAllPlayers w)) = rendered (players w)"
      using ne by (simp add: renderAllPlayers_ul)
    have "fst (renderAllPlayers w) = Normal ()"
      using objs by (rule renderAllPlayers_ok)
    moreover have "length (ul (snd (renderAllPlayers w))) = length (players w)"
      unfolding u using objs by (rule rendered_length)
    moreover have "\<forall>i < length (players w). \<exists>rest.
           ul (snd (renderAllPlayers w)) ! i = Elem ''li'' [] []
             (Elem ''h3'' [] [] (text_content (opt_prop (players w ! i) ''name''))
              # Elem ''h3'' [] [] [Text (''ID: '' @ to_string (opt_prop (players w ! i) ''id''))]
              # rest)"
      unfolding u using rendered_nth [OF objs] by blast
    ultimately show ?thesis by blast
  qed
  from none some show ?thesis by blast
qed

theorem renderAllPlayers_rows_witness:
  "players page_load = []
   \<and> renderAllPlayers page_load
       = (Normal (), page_load\<lparr>ul := [Elem ''li'' [] [] [Text ''No players.'']]\<rparr>)
   \<and> players (page_load\<lparr>players := [rex, bo]\<rparr>) \<noteq> []
   \<and> list_all (\<lambda>p. \<not> nullish p) (players (page_load\<lparr>players := [rex, bo]\<rparr>))
   \<and> length (ul (snd (renderAllPlayers (page_load\<lparr>players := [rex, bo]\<rparr>)))) = 2
   \<and> (\<exists>rest. ul (snd (renderAllPlayers (page_load\<lparr>players := [rex, bo]\<rparr>))) ! 1
        = Elem ''li'' [] []
           (Elem ''h3'' [] [] [Text ''Bo''] # Elem ''h3'' [] [] [Text ''ID: 12''] # rest))"
proof -
  have e: "players page_load = []"
    by (simp add: page_load_def)
  have ne: "players (page_load\<lparr>players := [rex, bo]\<rparr>) \<noteq> []"
    by simp
  have objs: "list_all (\<lambda>p. \<not> nullish p) (players (page_load\<lparr>players := [rex, bo]\<rparr>))"
    by (simp add: rex_def bo_def)
  have t: "text_content (opt_prop bo ''name'') = [Text ''Bo'']"
    "to_string (opt_prop bo ''id'') = ''12''"
    by (simp_all add: bo_def text_content_def show_int_def digits.simps)
  let ?w = "page_load\<lparr>players := [rex, bo]\<rparr>"
  from renderAllPlayers_rows [of ?w] ne objs
  have len: "length (ul (snd (renderAllPlayers ?w))) = length (players ?w)"
    and all: "\<forall>i < length (players ?w). \<exists>rest.
           ul (snd (renderAllPlayers ?w)) ! i = Elem ''li'' [] []
             (Elem ''h3'' [] [] (text_content (opt_prop (players ?w ! i) ''name''))
              # Elem ''h3'' [] [] [Text (''ID: '' @ to_string (opt_prop (players ?w ! i) ''id''))]
              # rest)"
    by blast+
  have "1 < length (players ?w)" by simp
  with all have "\<exists>rest.
           ul (snd (renderAllPlayers ?w)) ! 1 = Elem ''li'' [] []
             (Elem ''h3'' [] [] (text_content (opt_prop (players ?w ! 1) ''name''))
              # Elem ''h3'' [] [] [Text (''ID: '' @ to_string (opt_prop (players ?w ! 1) ''id''))]
              # rest)"
    by blast
  with t have "\<exists>rest. ul (snd (renderAllPlayers ?w)) ! 1
        = Elem ''li'' [] []
           (Elem ''h3'' [] [] [Text ''Bo''] # Elem ''h3'' [] [] [Text ''ID: 12''] # rest)"
    by simp
  with renderAllPlayers_rows [of page_load] e ne objs len show ?thesis by simp
qed

section \<open>Properties of the delete operation\<close>

lemma filter_players_ok:
  "get_prop player ''id'' = Inr x \<Longrightarrow> list_all (\<lambda>p. \<not> nullish p) ps \<Longrightarrow>
     filter_players player ps = Inr (filter (\<lambda>p. \<not> strict_eq (opt_prop p ''id'') x) ps)"
  by (induction ps) (simp_all add: get_prop_opt_prop)

lemma filter_not_nullish:
  "list_all (\<lambda>p. \<not> nullish p) ps \<Longrightarrow> list_all (\<lambda>p. \<not> nullish p) (filter P ps)"
  by (induction ps) simp_all

lemma removePlayer_failed:
  assumes "get_prop player ''id'' = Inr x"
  shows "removePlayer player (Inl e) w =
           (Normal (), console_error (delete_failure x) (send (delete_request x) w))"
    and "\<not> ok resp \<Longrightarrow> removePlayer player (Inr resp) w =
           (Normal (), console_error (delete_failure x) (send (delete_request x) w))"
  using assms
  by (simp_all add: removePlayer_def removePlayer_try_def delete_request_def delete_failure_def)

lemma removePlayer_deleted:
  assumes "get_prop player ''id'' = Inr x" and "ok resp"
    and "list_all (\<lambda>p. \<not> nullish p) (players w)"
  shows "removePlayer player (Inr resp) w =
           renderAllPlayers ((send (delete_request x) w)
             \<lparr>players := filter (\<lambda>p. \<not> strict_eq (opt_prop p ''id'') x) (players w)\<rparr>)"
proof -
  let ?w = "(send (delete_request x) w)
             \<lparr>players := filter (\<lambda>p. \<not> strict_eq (opt_prop p ''id'') x) (players w)\<rparr>"
  have "list_all (\<lambda>p. \<not> nullish p) (players ?w)"
    using assms(3) by (simp add: filter_not_nullish)
  then have "fst (renderAllPlayers ?w) = Normal ()"
    by (rule renderAllPlayers_ok)
  then obtain w' where "renderAllPlayers ?w = (Normal (), w')"
    by (cases "renderAllPlayers ?w") simp
  then show ?thesis
    using assms filter_players_ok [OF assms(1), of "players w"]
    by (simp add: removePlayer_def removePlayer_try_def delete_request_def send_def)
qed

text \<open>
  C2: let \<open>x\<close> be the id of the player. When the delete request succeeds and the
  state holds player records, \<open>state.players\<close> is afterwards the old sequence without
  the entries whose id equals \<open>x\<close>, all others kept in their order; when one entry has
  that id, exactly that entry is gone. When the request fails (another status, or a
  network error), \<open>removePlayer\<close> completes normally, \<open>state.players\<close> and the
  container are as before and the console has one more line, the error message.
\<close>

theorem removePlayer_state:
  assumes "get_prop player ''id'' = Inr x"
  shows "(ok resp \<and> list_all (\<lambda>p. \<not> nullish p) (players w) \<longrightarrow>
            players (snd (removePlayer player (Inr resp) w))
              = filter (\<lambda>p. \<not> strict_eq (opt_prop p ''id'') x) (players w))
       \<and> (ok resp \<and> list_all (\<lambda>p. \<not> nullish p) (players w) \<and> players w = before @ p # after
            \<and> strict_eq (opt_prop p ''id'') x
            \<and> list_all (\<lambda>q. \<not> strict_eq (opt_prop q ''id'') x) (before @ after) \<longrightarrow>
            players (snd (removePlayer player (Inr resp) w)) = before @ after)
       \<and> (\<not> ok resp \<longrightarrow>
            fst (removePlayer player (Inr resp) w) = Normal ()
            \<and> players (snd (removePlayer player (Inr resp) w)) = players w
            \<and> ul (snd (removePlayer player (Inr resp) w)) = ul w
            \<and> console (snd (removePlayer player (Inr resp) w))
                = console w @ [(Err, ''Whoops, trouble removing player #'' @ to_string x
                                      @ '' from the roster!'')])
       \<and> fst (removePlayer player (Inl e) w) = Normal ()
       \<and> players (snd (removePlayer player (Inl e) w)) = players w
       \<and> ul (snd (removePlayer player (Inl e) w)) = ul w
       \<and> console (snd (removePlayer player (Inl e) w))
                = console w @ [(Err, ''Whoops, trouble removing player #'' @ to_string x
                                      @ '' from the roster!'')]"
proof -
  have del: "players (snd (removePlayer player (Inr resp) w))
              = filter (\<lambda>p. \<not> strict_eq (opt_prop p ''id'') x) (players w)"
    if "ok resp" "list_all (\<lambda>p. \<not> nullish p) (players w)"
    using removePlayer_deleted [OF assms that] by (simp add: renderAllPlayers_players)
  have one: "players (snd (removePlayer player (Inr resp) w)) = before @ after"
    if "ok resp" "list_all (\<lambda>p. \<not> nullish p) (players w)" "players w = before @ p # after"
      "strict_eq (opt_prop p ''id'') x"
      "list_all (\<lambda>q. \<not> strict_eq (opt_prop q ''id'') x) (before @ after)"
  proof -
    have "filter (\<lambda>p. \<not> strict_eq (opt_prop p ''id'') x) (before @ after) = before @ after"
      using that(5) by (simp add: list_all_iff)
    with del [OF that(1,2)] that(3,4) show ?thesis by simp
  qed
  have failed: "fst (removePlayer player (Inr resp) w) = Normal ()
            \<and> players (snd (removePlayer player (Inr resp) w)) = players w
            \<and> ul (snd (removePlayer player (Inr resp) w)) = ul w
            \<and> console (snd (removePlayer player (Inr resp) w))
                = console w @ [(Err, ''Whoops, trouble removing player #'' @ to_string x
                                      @ '' from the roster!'')]"
    if "\<not> ok resp"
    using removePlayer_failed(2) [OF assms that]
    by (simp add: console_error_def send_def delete_failure_def)
  have net: "fst (removePlayer player (Inl e) w) = Normal ()
       \<and> players (snd (removePlayer player (Inl e) w)) = players w
       \<and> ul (snd (removePlayer player (Inl e) w)) = ul w
       \<and> console (snd (removePlayer player (Inl e) w))
                = console w @ [(Err, ''Whoops, trouble removing player #'' @ to_string x
                                      @ '' from the roster!'')]"
    using removePlayer_failed(1) [OF assms]
    by (simp add: console_error_def send_def delete_failure_def)
  from del one failed net show ?thesis by blast
qed

theorem removePlayer_state_witness:
  "get_prop rex ''id'' = Inr (JNum 7)
   \<and> ok no_content \<and> list_all (\<lambda>p. \<not> nullish p) (players (page_load\<lparr>players := [rex, bo]\<rparr>))
   \<and> players (snd (removePlayer rex (Inr no_content) (page_load\<lparr>players := [rex, bo]\<rparr>))) = [bo]
   \<and> \<not> ok server_error
   \<and> players (snd (removePlayer rex (Inr server_error) (page_load\<lparr>players := [rex, bo]\<rparr>)))
       = [rex, bo]
   \<and> console (snd (removePlayer rex (Inr server_error) (page_load\<lparr>players := [rex, bo]\<rparr>)))
       = [(Err, ''Whoops, trouble removing player #7 from the roster!'')]"
proof -
  have i: "get_prop rex ''id'' = Inr (JNum 7)"
    by (simp add: rex_def)
  have s: "to_string (JNum 7) = ''7''"
    by (simp add: show_int_def digits.simps)
  from removePlayer_state [OF i, of no_content "page_load\<lparr>players := [rex, bo]\<rparr>" "[]" rex "[bo]"]
    removePlayer_state [OF i, of server_error "page_load\<lparr>players := [rex, bo]\<rparr>"]
  show ?thesis
    using i s by (simp add: ok_def no_content_def server_error_def rex_def bo_def page_load_def)
qed

text \<open>
  C10: after a delete request that succeeded for a player with id \<open>x\<close>, no entry of
  \<open>state.players\<close> has an id equal to \<open>x\<close>: every entry with that id is removed, however
  many there were.
\<close>

theorem removePlayer_removes_every_match:
  assumes "get_prop player ''id'' = Inr x" and "ok resp"
    and "list_all (\<lambda>p. \<not> nullish p) (players w)"
  shows "filter (\<lambda>p. strict_eq (opt_prop p ''id'') x) (players (snd (removePlayer player (Inr resp) w))) = []
       \<and> length (players (snd (removePlayer player (Inr resp) w)))
           = length (players w) - length (filter (\<lambda>p. strict_eq (opt_prop p ''id'') x) (players w))"
proof -
  have "players (snd (removePlayer player (Inr resp) w))
              = filter (\<lambda>p. \<not> strict_eq (opt_prop p ''id'') x) (players w)"
    using removePlayer_deleted [OF assms] by (simp add: renderAllPlayers_players)
  moreover have "length (filter (\<lambda>p. \<not> strict_eq (opt_prop p ''id'') x) (players w))
      = length (players w) - length (filter (\<lambda>p. strict_eq (opt_prop p ''id'') x) (players w))"
    using sum_length_filter_compl [of "\<lambda>p. strict_eq (opt_prop p ''id'') x" "players w"]
    by simp
  ultimately show ?thesis by (simp add: filter_empty_conv)
qed

theorem removePlayer_removes_every_match_witness:
  "get_prop rex ''id'' = Inr (JNum 7) \<and> ok no_content
   \<and> list_all (\<lambda>p. \<not> nullish p) (players (page_load\<lparr>players := [rex, bo, rex_twin]\<rparr>))
   \<and> filter (\<lambda>p. strict_eq (opt_prop p ''id'') (JNum 7))
       (players (snd (removePlayer rex (Inr no_content)
          (page_load\<lparr>players := [rex, bo, rex_twin]\<rparr>)))) = []
   \<and> length (players (snd (removePlayer rex (Inr no_content)
          (page_load\<lparr>players := [rex, bo, rex_twin]\<rparr>)))) = 1"
proof -
  let ?w = "page_load\<lparr>players := [rex, bo, rex_twin]\<rparr>"
  have i: "get_prop rex ''id'' = Inr (JNum 7)"
    by (simp add: rex_def)
  have k: "ok no_content"
    by (simp add: ok_def no_content_def)
  have n: "list_all (\<lambda>p. \<not> nullish p) (players ?w)"
    by (simp add: rex_def bo_def rex_twin_def)
  from removePlayer_removes_every_match [OF i k n] i k n
  show ?thesis
    by (simp add: rex_def bo_def rex_twin_def)
qed

text \<open>
  C5, as the claim states it, fails: after a delete request answered with status 500 the
  container is as it was and the console holds the error message only, whereas a call
  of \<open>renderAllPlayers\<close> would have put a card into the container and written its own
  lines to the console.
\<close>

theorem removePlayer_failure_renders_counterexample:
  "ul (snd (removePlayer rex (Inr server_error) (page_load\<lparr>players := [rex]\<rparr>))) = []
   \<and> console (snd (removePlayer rex (Inr server_error) (page_load\<lparr>players := [rex]\<rparr>)))
       = [(Err, ''Whoops, trouble removing player #7 from the roster!'')]
   \<and> length (ul (snd (renderAllPlayers (page_load\<lparr>players := [rex]\<rparr>)))) = 1
   \<and> console (snd (renderAllPlayers (page_load\<lparr>players := [rex]\<rparr>)))
       = [(Log, ''Processing player:''), (Log, ''Detail button created:''),
          (Log, ''Delete button created:''), (Log, ''Updated UL Element:'')]"
  by (simp add: removePlayer_def removePlayer_try_def renderAllPlayers_def render_player_def
      player_card_def console_log_def console_error_def send_def ok_def server_error_def
      rex_def page_load_def show_int_def digits.simps)

text \<open>
  C5, amended: when the delete request fails (another status, or a network error),
  \<open>removePlayer\<close> does not call \<open>renderAllPlayers\<close>: it sends the request, writes the
  error message to the console and leaves the container as it is. Only when the
  request succeeds does it run \<open>renderAllPlayers\<close>, on the filtered state.
\<close>

theorem removePlayer_renders_after_delete_only:
  assumes "get_prop player ''id'' = Inr x"
  shows "(\<not> ok resp \<longrightarrow>
           removePlayer player (Inr resp) w =
             (Normal (), console_error (delete_failure x) (send (delete_request x) w)))
       \<and> removePlayer player (Inl e) w =
             (Normal (), console_error (delete_failure x) (send (delete_request x) w))
       \<and> ul (console_error (delete_failure x) (send (delete_request x) w)) = ul w
       \<and> (ok resp \<and> list_all (\<lambda>p. \<not> nullish p) (players w) \<longrightarrow>
           removePlayer player (Inr resp) w =
             renderAllPlayers ((send (delete_request x) w)
               \<lparr>players := filter (\<lambda>p. \<not> strict_eq (opt_prop p ''id'') x) (players w)\<rparr>))"
  using removePlayer_failed [OF assms] removePlayer_deleted [OF assms]
  by (simp add: console_error_def send_def)

theorem removePlayer_renders_after_delete_only_witness:
  "get_prop rex ''id'' = Inr (JNum 7) \<and> \<not> ok server_error
   \<and> removePlayer rex (Inr server_error) (page_load\<lparr>players := [rex]\<rparr>) =
       (Normal (), console_error ''Whoops, trouble removing player #7 from the roster!''
          (send (delete_request (JNum 7)) (page_load\<lparr>players := [rex]\<rparr>)))
   \<and> ok no_content \<and> list_all (\<lambda>p. \<not> nullish p) (players (page_load\<lparr>players := [rex]\<rparr>))
   \<and> removePlayer rex (Inr no_content) (page_load\<lparr>players := [rex]\<rparr>) =
       renderAllPlayers ((send (delete_request (JNum 7)) (page_load\<lparr>players := [rex]\<rparr>))
         \<lparr>players := []\<rparr>)"
proof -
  have i: "get_prop rex ''id'' = Inr (JNum 7)"
    by (simp add: rex_def)
  have s: "delete_failure (JNum 7) = ''Whoops, trouble removing player #7 from the roster!''"
    by (simp add: delete_failure_def show_int_def digits.simps)
  from removePlayer_renders_after_delete_only [OF i, of server_error "page_load\<lparr>players := [rex]\<rparr>"]
    removePlayer_renders_after_delete_only [OF i, of no_content "page_load\<lparr>players := [rex]\<rparr>"]
  show ?thesis
    using i s by (simp add: ok_def no_content_def server_error_def rex_def)
qed

section \<open>Properties of the detail view\<close>

lemma fetchSinglePlayer_fst:
  "fst (fetchSinglePlayer pid r w) = fst (fetchSinglePlayer pid r w')"
  by (simp add: fetchSinglePlayer_def fetchSinglePlayer_try_def Let_def split: sum.splits)

text \<open>
  C8: when the detail fetch for the id of the player yields \<open>null\<close>, or a value
  without a \<open>player\<close> field, \<open>renderSinglePlayer\<close> completes normally and leaves
  exactly one row in the container, the placeholder \<open>Player not found.\<close>
\<close>

theorem renderSinglePlayer_not_found:
  assumes "get_prop player ''id'' = Inr pid"
    and "fst (fetchSinglePlayer pid r w) = Normal fetchedPlayer"
    and "fetchedPlayer = JNull \<or> opt_prop fetchedPlayer ''player'' = JUndefined"
  shows "fst (renderSinglePlayer player r w) = Normal ()
       \<and> ul (snd (renderSinglePlayer player r w)) = [Elem ''li'' [] [] [Text ''Player not found.'']]"
proof -
  obtain c w2 where f: "fetchSinglePlayer pid r (w\<lparr>ul := []\<rparr>) = (c, w2)"
    by force
  have c: "c = Normal fetchedPlayer"
    using fetchSinglePlayer_fst [of pid r "w\<lparr>ul := []\<rparr>" w] f assms(2) by simp
  show ?thesis
  proof (cases "truthy fetchedPlayer")
    case False
    with assms(1) f c show ?thesis
      by (simp add: renderSinglePlayer_def not_found_row_def console_log_def)
  next
    case True
    with assms(3) have "opt_prop fetchedPlayer ''player'' = JUndefined" by auto
    with True have "get_prop fetchedPlayer ''player'' = Inr JUndefined"
      using get_prop_opt_prop [OF truthy_not_nullish [OF True], of "''player''"] by simp
    with assms(1) f c True show ?thesis
      by (simp add: renderSinglePlayer_def not_found_row_def console_log_def)
  qed
qed

theorem renderSinglePlayer_not_found_witness:
  "get_prop rex ''id'' = Inr (JNum 7)
   \<and> fst (fetchSinglePlayer (JNum 7) (Inr not_found) page_load) = Normal JNull
   \<and> ul (snd (renderSinglePlayer rex (Inr not_found) page_load))
       = [Elem ''li'' [] [] [Text ''Player not found.'']]
   \<and> fst (fetchSinglePlayer (JNum 7) (Inr no_player) page_load) = Normal (JObj 31 [])
   \<and> opt_prop (JObj 31 []) ''player'' = JUndefined
   \<and> ul (snd (renderSinglePlayer rex (Inr no_player) page_load))
       = [Elem ''li'' [] [] [Text ''Player not found.'']]
   \<and> fst (renderSinglePlayer rex (Inl NetworkError) page_load) = Normal ()"
proof -
  have i: "get_prop rex ''id'' = Inr (JNum 7)"
    by (simp add: rex_def)
  have a: "fst (fetchSinglePlayer (JNum 7) (Inr not_found) page_load) = Normal JNull"
    by (simp add: fetchSinglePlayer_def fetchSinglePlayer_try_def ok_def not_found_def)
  have b: "fst (fetchSinglePlayer (JNum 7) (Inr no_player) page_load) = Normal (JObj 31 [])"
    by (simp add: fetchSinglePlayer_def fetchSinglePlayer_try_def ok_def no_player_def)
  have c: "fst (fetchSinglePlayer (JNum 7) (Inl NetworkError) page_load) = Normal JNull"
    by (simp add: fetchSinglePlayer_def fetchSinglePlayer_try_def)
  from renderSinglePlayer_not_found [OF i a] renderSinglePlayer_not_found [OF i b]
    renderSinglePlayer_not_found [OF i c]
  show ?thesis using i a b by simp
qed

section \<open>Properties of the form controller\<close>

lemma addNewPlayer_normal:
  "\<exists>v. fst (addNewPlayer player r w) = Normal v"
  by (simp add: addNewPlayer_value)

lemma submit_listener_refreshes:
  "submit_listener form newForm created listed w =
    (let w3 = snd (addNewPlayer
           (JObj (next_ref w)
              [(''name'', JStr (f_name (current (forms w newForm)))),
               (''breed'', JStr (f_breed (current (forms w newForm)))),
               (''imageUrl'', JStr (f_imageUrl (current (forms w newForm)))),
               (''status'', JStr (f_status (current (forms w newForm))))])
           created (w\<lparr>defaultPrevented := True, next_ref := Suc (next_ref w)\<rparr>))
     in (Normal (), snd (init listed
           (w3\<lparr>forms := (forms w3)(form := (forms w3 form)
                  \<lparr>current := defaults (forms w3 form)\<rparr>)\<rparr>))))"
proof -
  let ?p = "JObj (next_ref w)
              [(''name'', JStr (f_name (current (forms w newForm)))),
               (''breed'', JStr (f_breed (current (forms w newForm)))),
               (''imageUrl'', JStr (f_imageUrl (current (forms w newForm)))),
               (''status'', JStr (f_status (current (forms w newForm))))]"
  let ?w2 = "w\<lparr>defaultPrevented := True, next_ref := Suc (next_ref w)\<rparr>"
  obtain c w3 where a: "addNewPlayer ?p created ?w2 = (c, w3)"
    by force
  from addNewPlayer_normal [of ?p created ?w2] a obtain v where c: "c = Normal v"
    by auto
  show ?thesis
    using a c by (simp add: submit_listener_def Let_def)
qed

lemma typed_form:
  "doc_form typed = 1 \<and> forms typed 1 = \<lparr>current = rex_fields, defaults = blank,
      listeners = [SubmitNewPlayer 0 1]\<rparr> \<and> next_ref typed = 2"
  by (simp add: typed_def init_def fetchAllPlayers_def fetchAllPlayers_try_def empty_roster_def
      renderAllPlayers_def renderNewPlayerForm_def console_log_def send_def page_load_def Let_def)

text \<open>
  C4, at the submission of the form with the fields Rex, Lab, an empty image address
  and Bench: the listener prevents the default action, sends the create request with
  exactly these fields and runs \<open>init\<close> again (the roster is fetched and a new clone of
  the form is bound). But the \<open>reset\<close> goes to the element that
  \<open>renderNewPlayerForm\<close> had replaced (form 0, no longer in the document): the form
  that was submitted (form 1) and the form that is in the document afterwards (form 3,
  its clone) still hold the fields as entered.
\<close>

theorem submit_resets_detached_form:
  "doc_form typed = 1
   \<and> listeners (forms typed 1) = [SubmitNewPlayer 0 1]
   \<and> current (forms typed 1) = rex_fields
   \<and> defaultPrevented (snd (fire (SubmitNewPlayer 0 1) (Inr created_rex) (Inr roster_rex) typed))
   \<and> last (butlast (requests (snd (fire (SubmitNewPlayer 0 1) (Inr created_rex) (Inr roster_rex) typed))))
       = \<lparr>http_method = ''POST'', url = API_URL, body = Some (JObj 2
            [(''name'', JStr ''Rex''), (''breed'', JStr ''Lab''), (''imageUrl'', JStr []),
             (''status'', JStr ''Bench'')])\<rparr>
   \<and> players (snd (fire (SubmitNewPlayer 0 1) (Inr created_rex) (Inr roster_rex) typed)) = [rex]
   \<and> doc_form (snd (fire (SubmitNewPlayer 0 1) (Inr created_rex) (Inr roster_rex) typed)) = 3
   \<and> current (forms (snd (fire (SubmitNewPlayer 0 1) (Inr created_rex) (Inr roster_rex) typed)) 3)
       = rex_fields
   \<and> current (forms (snd (fire (SubmitNewPlayer 0 1) (Inr created_rex) (Inr roster_rex) typed)) 1)
       = rex_fields
   \<and> current (forms (snd (fire (SubmitNewPlayer 0 1) (Inr created_rex) (Inr roster_rex) typed)) 0)
       = blank
   \<and> rex_fields \<noteq> blank"
  by (simp add: typed_def submit_listener_def addNewPlayer_def addNewPlayer_try_def
      init_def fetchAllPlayers_def fetchAllPlayers_try_def empty_roster_def
      created_rex_def roster_rex_def rex_def rex_fields_def blank_def
      renderAllPlayers_def render_player_def player_card_def
      renderNewPlayerForm_def console_log_def console_error_def send_def page_load_def Let_def)

end
